theory Spec2Isabelle
  imports Main "HOL-Library.Sublist"
begin

section \<open>JavaScript values used by the application\<close>

text \<open>
  Strings are lists of \<^typ>\<open>char\<close>. The three string operations the sources use are
  \<^verbatim>\<open>toLowerCase\<close>, \<^verbatim>\<open>includes\<close> and \<^verbatim>\<open>split(' ')\<close>. Lower-casing is modelled
  on the ASCII letters (every keyword of the scripted client is lower-case ASCII);
  other characters are left as they are.
\<close>

definition toLowerChar :: "char \<Rightarrow> char" where
  "toLowerChar c =
     (let n = (of_char c :: nat) in if 65 \<le> n \<and> n \<le> 90 then char_of (n + 32) else c)"

definition toLowerCase :: "string \<Rightarrow> string" where
  "toLowerCase s = map toLowerChar s"

text \<open>\<^verbatim>\<open>s.includes(k)\<close>: \<open>k\<close> occurs in \<open>s\<close> as a contiguous run.\<close>

fun includes_str :: "string \<Rightarrow> string \<Rightarrow> bool" where
  "includes_str [] k = (k = [])"
| "includes_str (c # cs) k = (prefix k (c # cs) \<or> includes_str cs k)"

text \<open>
  \<^verbatim>\<open>s.split(' ')\<close>: the pieces between single spaces. The empty string gives one
  empty piece, and two adjacent spaces give an empty piece between them.
\<close>

fun split_space :: "string \<Rightarrow> string list" where
  "split_space [] = [[]]"
| "split_space (c # cs) =
     (if c = CHR '' '' then [] # split_space cs
      else (case split_space cs of
              [] \<Rightarrow> [[c]]
            | w # ws \<Rightarrow> (c # w) # ws))"

text \<open>
  A thrown value, as a \<^verbatim>\<open>catch\<close> clause sees it: the name of the error and its
  \<^verbatim>\<open>message\<close> property (\<open>None\<close> when the thrown value has none).
\<close>

datatype js_error = JsError (errName: string) (message: "string option")

text \<open>\<^verbatim>\<open>error.message || fallback\<close>: an absent or empty message is falsy.\<close>

definition message_or :: "js_error \<Rightarrow> string \<Rightarrow> string" where
  "message_or e fallback =
     (case message e of
        None \<Rightarrow> fallback
      | Some m \<Rightarrow> if m = [] then fallback else m)"

section \<open>The conversation model client, scripted variant (lib/openai)\<close>

datatype role = System | User | Assistant

text \<open>
  \<^verbatim>\<open>content: string | Array<any>\<close>. The only array the application builds is the
  first live user turn: a text part and an image part.
\<close>

datatype content_part = TextPart string | ImageUrlPart string

datatype content = Text string | Parts "content_part list"

record ChatMessage =
  role :: role
  content :: content

text \<open>What both client calls resolve to: the reply and the optional colour command.\<close>

record reply =
  replyText :: string
  toolCall :: "string option"

record start_reply = reply +
  initialUserMessage :: ChatMessage

text \<open>
  \<^verbatim>\<open>mockAnalyzeImageAndStart\<close> waits 1.5 s and resolves to a fixed greeting. The wait
  changes no value and is not modelled.
\<close>

definition mockAnalyzeImageAndStart :: "js_error + start_reply" where
  "mockAnalyzeImageAndStart =
     Inr \<lparr> replyText = ''Wow! That looks like a super happy dinosaur! Is he going on an adventure?'',
           toolCall = Some ''#e3fded'',
           initialUserMessage = \<lparr> role = User, content = Text ''Image Analysis Request'' \<rparr> \<rparr>"

text \<open>
  Reading \<^verbatim>\<open>.content\<close> of \<^verbatim>\<open>undefined\<close> throws a \<^verbatim>\<open>TypeError\<close>; the message text is
  the engine's.
\<close>

definition typeError_content :: js_error where
  "typeError_content =
     JsError ''TypeError'' (Some ''Cannot read properties of undefined (reading 'content')'')"

text \<open>
  \<^verbatim>\<open>typeof lastUserMsg.content === 'string' ? lastUserMsg.content.toLowerCase() : ''\<close>
\<close>

definition userText_of :: "ChatMessage \<Rightarrow> string" where
  "userText_of lastUserMsg =
     (case content lastUserMsg of
        Text t \<Rightarrow> toLowerCase t
      | Parts _ \<Rightarrow> [])"

text \<open>The \<^verbatim>\<open>if\<close>/\<^verbatim>\<open>else if\<close> chain of \<^verbatim>\<open>mockContinueConversation\<close>, in the source's order.\<close>

definition keyword_chain :: "string \<Rightarrow> reply" where
  "keyword_chain userText =
     (if includes_str userText ''red'' \<or> includes_str userText ''fire'' \<or> includes_str userText ''hot'' then
        \<lparr> replyText = ''Oh wow! Red like a volcano! Is it hot?'', toolCall = Some ''#ffe5e5'' \<rparr>
      else if includes_str userText ''blue'' \<or> includes_str userText ''water'' \<or> includes_str userText ''swim'' then
        \<lparr> replyText = ''Splash! Blue like the ocean. Can he swim?'', toolCall = Some ''#e0f7fa'' \<rparr>
      else if includes_str userText ''green'' \<or> includes_str userText ''grass'' \<or> includes_str userText ''leaf'' then
        \<lparr> replyText = ''Yum! Green like fresh leaves. Is he hungry?'', toolCall = Some ''#e3fded'' \<rparr>
      else if includes_str userText ''fly'' \<or> includes_str userText ''wings'' then
        \<lparr> replyText = ''Zoom! Flying high in the sky! Where is he going?'', toolCall = Some ''#e1f5fe'' \<rparr>
      else if includes_str userText ''eat'' \<or> includes_str userText ''food'' \<or> includes_str userText ''hungry'' then
        \<lparr> replyText = ''Crunch crunch! He loves eating big leaves and fruits. What is your favorite food?'',
          toolCall = Some ''#fff3e0'' \<rparr>
      else if includes_str userText ''roar'' \<or> includes_str userText ''loud'' then
        \<lparr> replyText = ''ROAAAR! He has a big loud voice! Can you roar like a dinosaur?'',
          toolCall = Some ''#ffecb3'' \<rparr>
      else if includes_str userText ''friend'' \<or> includes_str userText ''play'' then
        \<lparr> replyText = ''Friends are the best! Does he play tag or hide-and-seek?'',
          toolCall = Some ''#f3e5f5'' \<rparr>
      else if includes_str userText ''sleep'' \<or> includes_str userText ''tired'' \<or> includes_str userText ''bed'' then
        \<lparr> replyText = ''Shhh... tight sleep. Maybe he dreams of flying?'', toolCall = Some ''#cfd8dc'' \<rparr>
      else if includes_str userText ''yes'' \<or> includes_str userText ''yeah'' then
        \<lparr> replyText = ''Yay! I knew it! Tell me more!'', toolCall = None \<rparr>
      else if includes_str userText ''no'' \<or> includes_str userText ''nope'' then
        \<lparr> replyText = ''Oh really? What mistakes did I make? Tell me the secret!'', toolCall = None \<rparr>
      else
        \<lparr> replyText = ''That sounds like so much fun! What else can he do?'', toolCall = None \<rparr>)"

text \<open>
  \<^verbatim>\<open>history[history.length - 1]\<close> is \<^verbatim>\<open>undefined\<close> on an empty array, and the read of
  its \<^verbatim>\<open>content\<close> then throws: the promise rejects. The 1 s wait is not modelled.
\<close>

definition mockContinueConversation :: "ChatMessage list \<Rightarrow> js_error + reply" where
  "mockContinueConversation history =
     (case history of
        [] \<Rightarrow> Inl typeError_content
      | _ # _ \<Rightarrow> Inr (keyword_chain (userText_of (last history))))"

text \<open>
  The same behaviour in the spec's words, for comparison with the chain above: a fixed
  table of keyword sets with their reply and colour, checked in order, the first
  matching row winning, and a generic reply with no colour when no row matches.
\<close>

definition keyword_table :: "(string list \<times> reply) list" where
  "keyword_table =
     [([''red'', ''fire'', ''hot''],
         \<lparr> replyText = ''Oh wow! Red like a volcano! Is it hot?'', toolCall = Some ''#ffe5e5'' \<rparr>),
      ([''blue'', ''water'', ''swim''],
         \<lparr> replyText = ''Splash! Blue like the ocean. Can he swim?'', toolCall = Some ''#e0f7fa'' \<rparr>),
      ([''green'', ''grass'', ''leaf''],
         \<lparr> replyText = ''Yum! Green like fresh leaves. Is he hungry?'', toolCall = Some ''#e3fded'' \<rparr>),
      ([''fly'', ''wings''],
         \<lparr> replyText = ''Zoom! Flying high in the sky! Where is he going?'', toolCall = Some ''#e1f5fe'' \<rparr>),
      ([''eat'', ''food'', ''hungry''],
         \<lparr> replyText = ''Crunch crunch! He loves eating big leaves and fruits. What is your favorite food?'',
           toolCall = Some ''#fff3e0'' \<rparr>),
      ([''roar'', ''loud''],
         \<lparr> replyText = ''ROAAAR! He has a big loud voice! Can you roar like a dinosaur?'',
           toolCall = Some ''#ffecb3'' \<rparr>),
      ([''friend'', ''play''],
         \<lparr> replyText = ''Friends are the best! Does he play tag or hide-and-seek?'',
           toolCall = Some ''#f3e5f5'' \<rparr>),
      ([''sleep'', ''tired'', ''bed''],
         \<lparr> replyText = ''Shhh... tight sleep. Maybe he dreams of flying?'', toolCall = Some ''#cfd8dc'' \<rparr>),
      ([''yes'', ''yeah''],
         \<lparr> replyText = ''Yay! I knew it! Tell me more!'', toolCall = None \<rparr>),
      ([''no'', ''nope''],
         \<lparr> replyText = ''Oh really? What mistakes did I make? Tell me the secret!'', toolCall = None \<rparr>)]"

definition default_reply :: reply where
  "default_reply =
     \<lparr> replyText = ''That sounds like so much fun! What else can he do?'', toolCall = None \<rparr>"

definition row_matches :: "string \<Rightarrow> string list \<times> reply \<Rightarrow> bool" where
  "row_matches t row = list_ex (includes_str t) (fst row)"

definition first_match :: "string \<Rightarrow> reply" where
  "first_match t =
     (case find (row_matches t) keyword_table of
        None \<Rightarrow> default_reply
      | Some row \<Rightarrow> snd row)"

text \<open>
  The spec's ``latest user turn'': the text of the last message of the history whose
  role is user, if there is one.
\<close>

definition latest_user_text :: "ChatMessage list \<Rightarrow> string option" where
  "latest_user_text history =
     (case find (\<lambda>m. role m = User) (rev history) of
        None \<Rightarrow> None
      | Some m \<Rightarrow> (case content m of Text t \<Rightarrow> Some t | Parts _ \<Rightarrow> None))"

section \<open>The speech adapter: recognition (hooks/useSpeech)\<close>

text \<open>
  The hook's recognition half: the two React state values \<open>isListening\<close> and
  \<open>transcript\<close>, the ref \<open>shouldListen\<close> (\<^verbatim>\<open>shouldListenRef.current\<close>) and whether
  \<^verbatim>\<open>recognitionRef.current\<close> holds a recognizer. The last three fields are the browser's
  side: whether the recognizer is started, and how many \<^verbatim>\<open>start()\<close> calls it accepted and
  \<^verbatim>\<open>stop()\<close> calls it received.
\<close>

record listener =
  isListening :: bool
  transcript :: string
  shouldListen :: bool
  hasRecognition :: bool
  recStarted :: bool
  startCalls :: nat
  stopCalls :: nat

definition invalidStateError :: js_error where
  "invalidStateError = JsError ''InvalidStateError'' (Some ''recognition has already started'')"

text \<open>\<^verbatim>\<open>recognition.start()\<close> throws when the recognizer is already started.\<close>

definition recognition_start :: "listener \<Rightarrow> js_error + listener" where
  "recognition_start s =
     (if recStarted s then Inl invalidStateError
      else Inr (s\<lparr>recStarted := True, startCalls := Suc (startCalls s)\<rparr>))"

text \<open>\<^verbatim>\<open>recognition.stop()\<close> is a request; the recognizer ends later, with an end event.\<close>

definition recognition_stop :: "listener \<Rightarrow> listener" where
  "recognition_stop s = s\<lparr>stopCalls := Suc (stopCalls s)\<rparr>"

text \<open>\<^verbatim>\<open>try { recognition.start() } catch (e) { console.log(...) }\<close>\<close>

definition try_start :: "listener \<Rightarrow> listener" where
  "try_start s = (case recognition_start s of Inl e \<Rightarrow> s | Inr s' \<Rightarrow> s')"

definition recognition_onstart :: "listener \<Rightarrow> listener" where
  "recognition_onstart s = s\<lparr>isListening := True\<rparr>"

text \<open>
  \<^verbatim>\<open>event.results\<close> is a list of results, each a list of alternatives, given here by
  their transcripts. \<^verbatim>\<open>event.results[last][0].transcript\<close> throws when there is no
  result or the last result has no alternative.
\<close>

definition typeError_results :: js_error where
  "typeError_results = JsError ''TypeError'' (Some ''Cannot read properties of undefined'')"

definition recognition_onresult :: "string list list \<Rightarrow> listener \<Rightarrow> js_error + listener" where
  "recognition_onresult results s =
     (case results of
        [] \<Rightarrow> Inl typeError_results
      | _ # _ \<Rightarrow>
          (case last results of
             [] \<Rightarrow> Inl typeError_results
           | text # _ \<Rightarrow> Inr (s\<lparr>transcript := text\<rparr>)))"

definition recognition_onend :: "listener \<Rightarrow> listener" where
  "recognition_onend s =
     (let s1 = s\<lparr>isListening := False\<rparr>
      in if shouldListen s1 then try_start s1 else s1)"

definition recognition_onerror :: "string \<Rightarrow> listener \<Rightarrow> listener" where
  "recognition_onerror err s =
     (let s1 = (if err = ''not-allowed'' \<or> err = ''service-not-allowed''
                then s\<lparr>shouldListen := False\<rparr> else s)
      in s1\<lparr>isListening := False\<rparr>)"

definition startListening :: "listener \<Rightarrow> listener" where
  "startListening s =
     (let s1 = s\<lparr>transcript := []\<rparr>;
          s2 = s1\<lparr>shouldListen := True\<rparr>
      in if hasRecognition s2 then try_start s2 else s2)"

definition stopListening :: "listener \<Rightarrow> listener" where
  "stopListening s =
     (let s1 = s\<lparr>shouldListen := False\<rparr>
      in if hasRecognition s1 then recognition_stop s1 else s1)"

text \<open>
  The events the browser's recognizer delivers to the handlers above. An end event
  means the recognizer has stopped. An exception thrown inside a handler is reported by
  the browser and leaves the state as it was. Without a recognizer there are no events.
\<close>

datatype rec_event = EvStart | EvResult "string list list" | EvEnd | EvError string

definition rec_deliver :: "rec_event \<Rightarrow> listener \<Rightarrow> listener" where
  "rec_deliver ev s =
     (if \<not> hasRecognition s then s
      else (case ev of
              EvStart \<Rightarrow> recognition_onstart s
            | EvResult results \<Rightarrow>
                (case recognition_onresult results s of Inl e \<Rightarrow> s | Inr s' \<Rightarrow> s')
            | EvEnd \<Rightarrow> recognition_onend (s\<lparr>recStarted := False\<rparr>)
            | EvError err \<Rightarrow> recognition_onerror err s))"

fun rec_run :: "listener \<Rightarrow> rec_event list \<Rightarrow> listener" where
  "rec_run s [] = s"
| "rec_run s (ev # evs) = rec_run (rec_deliver ev s) evs"

text \<open>The hook's state after mounting in a browser that has speech recognition.\<close>

definition mounted_listener :: listener where
  "mounted_listener =
     \<lparr> isListening = False, transcript = [], shouldListen = False, hasRecognition = True,
       recStarted = False, startCalls = 0, stopCalls = 0 \<rparr>"

section \<open>The speech adapter: synthesis (hooks/useSpeech)\<close>

text \<open>
  The state of the hook's \<^verbatim>\<open>speak\<close>: the React state value \<open>isSpeaking\<close>; whether an
  utterance carrying the handlers of the call was handed to the engine; the safety
  timer (pending or not, and its delay in milliseconds); whether the caller passed
  \<^verbatim>\<open>onEnd\<close>; how often \<^verbatim>\<open>onEnd\<close> was invoked; how often \<^verbatim>\<open>speechSynthesis.cancel()\<close>
  was called. The utterance, the timer and the callback are those of one call of
  \<^verbatim>\<open>speak\<close>, followed from \<open>idle_speaker\<close>.
\<close>

record speaker =
  isSpeaking :: bool
  utterance :: bool
  timerPending :: bool
  timerDelay :: nat
  hasOnEnd :: bool
  onEndCalls :: nat
  cancelCalls :: nat

definition idle_speaker :: speaker where
  "idle_speaker =
     \<lparr> isSpeaking = False, utterance = False, timerPending = False, timerDelay = 0,
       hasOnEnd = False, onEndCalls = 0, cancelCalls = 0 \<rparr>"

text \<open>\<^verbatim>\<open>Math.max(2000, text.split(' ').length * 500)\<close>\<close>

definition contentDuration :: "string \<Rightarrow> nat" where
  "contentDuration text = max 2000 (length (split_space text) * 500)"

text \<open>The delay passed to \<^verbatim>\<open>setTimeout\<close>: \<^verbatim>\<open>contentDuration + 2000\<close>.\<close>

definition safetyDelay :: "string \<Rightarrow> nat" where
  "safetyDelay text = contentDuration text + 2000"

text \<open>
  \<^verbatim>\<open>speak(text, onEnd)\<close>: returns at once on an empty text; otherwise cancels the
  current speech, sets the safety timer, attaches the handlers and hands the utterance
  to the engine. The choice of voice, pitch and rate changes nothing modelled here.
\<close>

definition speak :: "string \<Rightarrow> bool \<Rightarrow> speaker \<Rightarrow> speaker" where
  "speak text onEnd s =
     (if text = [] then s
      else s\<lparr>cancelCalls := Suc (cancelCalls s),
             timerPending := True,
             timerDelay := safetyDelay text,
             hasOnEnd := onEnd,
             utterance := True\<rparr>)"

text \<open>\<^verbatim>\<open>if (onEnd) onEnd()\<close>\<close>

definition call_onEnd :: "speaker \<Rightarrow> speaker" where
  "call_onEnd s = (if hasOnEnd s then s\<lparr>onEndCalls := Suc (onEndCalls s)\<rparr> else s)"

definition utterance_onstart :: "speaker \<Rightarrow> speaker" where
  "utterance_onstart s = s\<lparr>isSpeaking := True\<rparr>"

text \<open>\<^verbatim>\<open>clearTimeout(safetyTimer); setIsSpeaking(false); if (onEnd) onEnd()\<close>\<close>

definition utterance_onend :: "speaker \<Rightarrow> speaker" where
  "utterance_onend s = call_onEnd (s\<lparr>timerPending := False, isSpeaking := False\<rparr>)"

definition utterance_onerror :: "speaker \<Rightarrow> speaker" where
  "utterance_onerror s = call_onEnd (s\<lparr>timerPending := False, isSpeaking := False\<rparr>)"

text \<open>
  The body of the safety timer; \<open>speaking\<close> is the value of
  \<^verbatim>\<open>window.speechSynthesis.speaking\<close> when the timer fires.
\<close>

definition safetyTimer_body :: "bool \<Rightarrow> speaker \<Rightarrow> speaker" where
  "safetyTimer_body speaking s =
     (if speaking
      then call_onEnd (s\<lparr>cancelCalls := Suc (cancelCalls s), isSpeaking := False\<rparr>)
      else s)"

text \<open>
  What can happen after \<^verbatim>\<open>speak\<close>: the engine reports start, end or error of the
  utterance (only if there is one), or the timer's delay elapses (the timer runs once,
  and only if it is still pending).
\<close>

datatype synth_event = UtteranceStart | UtteranceEnd | UtteranceError | TimerElapsed bool

definition synth_deliver :: "synth_event \<Rightarrow> speaker \<Rightarrow> speaker" where
  "synth_deliver ev s =
     (case ev of
        UtteranceStart \<Rightarrow> if utterance s then utterance_onstart s else s
      | UtteranceEnd \<Rightarrow> if utterance s then utterance_onend s else s
      | UtteranceError \<Rightarrow> if utterance s then utterance_onerror s else s
      | TimerElapsed speaking \<Rightarrow>
          if timerPending s then safetyTimer_body speaking (s\<lparr>timerPending := False\<rparr>) else s)"

fun synth_run :: "speaker \<Rightarrow> synth_event list \<Rightarrow> speaker" where
  "synth_run s [] = s"
| "synth_run s (ev # evs) = synth_run (synth_deliver ev s) evs"

section \<open>The conversation controller (App)\<close>

datatype AppState = IDLE | ANALYZING | SPEAKING | LISTENING | THINKING | ERROR

record app =
  apiKey :: string
  hasKey :: bool
  imageSrc :: string
  appState :: AppState
  history :: "ChatMessage list"
  lastAIResponse :: string
  backgroundColor :: string
  isDemoMode :: bool

text \<open>The calls the controller makes into the speech adapter.\<close>

datatype adapter_call = CallSpeak string | CallStartListening

definition initial_app :: app where
  "initial_app =
     \<lparr> apiKey = [], hasKey = False, imageSrc = ''/dino.svg'', appState = IDLE, history = [],
       lastAIResponse = [], backgroundColor = ''#f0f9ff'', isDemoMode = False \<rparr>"

text \<open>The mount effect: a stored, non-empty key is taken over.\<close>

definition loadStoredKey :: "string option \<Rightarrow> app \<Rightarrow> app" where
  "loadStoredKey storedKey s =
     (case storedKey of
        None \<Rightarrow> s
      | Some k \<Rightarrow> if k = [] then s else s\<lparr>apiKey := k, hasKey := True\<rparr>)"

definition handleResetKey :: "app \<Rightarrow> app" where
  "handleResetKey s = s\<lparr>apiKey := [], hasKey := False, appState := IDLE\<rparr>"

text \<open>\<^verbatim>\<open>handleImageUpload\<close>, after the file has been converted to \<open>base64\<close>.\<close>

definition handleImageUpload :: "string \<Rightarrow> app \<Rightarrow> app" where
  "handleImageUpload base64 s =
     s\<lparr>imageSrc := base64, appState := IDLE, history := [], lastAIResponse := []\<rparr>"

text \<open>The ``Try Again'' button of the error screen: \<^verbatim>\<open>setAppState('IDLE')\<close>.\<close>

definition tryAgain :: "app \<Rightarrow> app" where
  "tryAgain s = s\<lparr>appState := IDLE\<rparr>"

text \<open>The \<^verbatim>\<open>catch\<close> clause shared by \<^verbatim>\<open>startConversation\<close> and \<^verbatim>\<open>handleUserResponse\<close>.\<close>

definition catch_error :: "js_error \<Rightarrow> app \<Rightarrow> app" where
  "catch_error e s =
     (let s1 = s\<lparr>lastAIResponse := message_or e ''Unknown error occurred''\<rparr>
      in s1\<lparr>appState := ERROR\<rparr>)"

text \<open>\<^verbatim>\<open>if (toolCall) setBackgroundColor(toolCall.color)\<close>\<close>

definition apply_toolCall :: "string option \<Rightarrow> app \<Rightarrow> app" where
  "apply_toolCall tc s = (case tc of None \<Rightarrow> s | Some color \<Rightarrow> s\<lparr>backgroundColor := color\<rparr>)"

text \<open>
  \<^verbatim>\<open>startConversation(forceDemo)\<close>. The two awaited remote operations are parameters:
  \<open>fetchImageAsBase64\<close> (utils/image) and the live \<open>analyzeImageAndStart\<close>, each
  giving what its promise settles to. The result is the state after the function has run
  to its end, with the calls made into the speech adapter.
\<close>

definition startConversation ::
  "bool \<Rightarrow> (string \<Rightarrow> js_error + string) \<Rightarrow> (string \<Rightarrow> js_error + start_reply) \<Rightarrow>
   app \<Rightarrow> app \<times> adapter_call list" where
  "startConversation forceDemo fetchImageAsBase64 analyzeImageAndStart s =
     (if \<not> hasKey s \<and> \<not> forceDemo then (s, [])
      else
        let useDemo = forceDemo \<or> isDemoMode s;
            s1 = (if forceDemo then s\<lparr>isDemoMode := True\<rparr> else s);
            s2 = s1\<lparr>appState := ANALYZING\<rparr>;
            fetched = (if \<not> prefix ''data:'' (imageSrc s) \<and> \<not> useDemo
                       then fetchImageAsBase64 (imageSrc s) else Inr (imageSrc s))
        in case fetched of
             Inl e \<Rightarrow> (catch_error e s2, [])
           | Inr base64 \<Rightarrow>
               (case (if useDemo then mockAnalyzeImageAndStart else analyzeImageAndStart base64) of
                  Inl e \<Rightarrow> (catch_error e s2, [])
                | Inr result \<Rightarrow>
                    let s3 = s2\<lparr>lastAIResponse := replyText result\<rparr>;
                        s4 = s3\<lparr>history := [initialUserMessage result,
                                            \<lparr> role = Assistant, content = Text (replyText result) \<rparr>]\<rparr>;
                        s5 = apply_toolCall (toolCall result) s4;
                        s6 = s5\<lparr>appState := SPEAKING\<rparr>
                    in (s6, [CallSpeak (replyText result)])))"

definition handleAIBlueSpeechEnd :: "app \<Rightarrow> app \<times> adapter_call list" where
  "handleAIBlueSpeechEnd s = (s\<lparr>appState := LISTENING\<rparr>, [CallStartListening])"

text \<open>
  \<^verbatim>\<open>handleUserResponse(userText)\<close>; the live \<open>continueConversation\<close> is a parameter
  giving what its promise settles to.
\<close>

definition handleUserResponse ::
  "string \<Rightarrow> (ChatMessage list \<Rightarrow> js_error + reply) \<Rightarrow> app \<Rightarrow> app \<times> adapter_call list" where
  "handleUserResponse userText continueConversation s =
     (let s1 = s\<lparr>appState := THINKING\<rparr>;
          newHistory = history s @ [\<lparr> role = User, content = Text userText \<rparr>];
          s2 = s1\<lparr>history := newHistory\<rparr>
      in case (if isDemoMode s then mockContinueConversation newHistory
               else continueConversation newHistory) of
           Inl e \<Rightarrow> (catch_error e s2, [])
         | Inr result \<Rightarrow>
             let s3 = s2\<lparr>lastAIResponse := replyText result\<rparr>;
                 s4 = s3\<lparr>history := newHistory @ [\<lparr> role = Assistant, content = Text (replyText result) \<rparr>]\<rparr>;
                 s5 = apply_toolCall (toolCall result) s4;
                 s6 = s5\<lparr>appState := SPEAKING\<rparr>
             in (s6, [CallSpeak (replyText result)]))"

text \<open>Remote operations with a fixed outcome, for stating what a call settled to.\<close>

definition settles_to :: "'b \<Rightarrow> 'a \<Rightarrow> js_error + 'b" where
  "settles_to r x = Inr r"

definition throws :: "js_error \<Rightarrow> 'a \<Rightarrow> js_error + 'b" where
  "throws e x = Inl e"

section \<open>Concrete states and inputs used below\<close>

text \<open>The adapter after \<^verbatim>\<open>startListening()\<close> and the recognizer's start event.\<close>

definition listening_listener :: listener where
  "listening_listener = rec_run (startListening mounted_listener) [EvStart]"

definition ten_words :: string where
  "ten_words = ''one two three four five six seven eight nine ten''"

text \<open>The controller at start-up with a key in local storage: live mode.\<close>

definition live_app :: app where
  "live_app = loadStoredKey (Some ''sk-test'') initial_app"

text \<open>A reply of the live client to the first image.\<close>

definition live_greeting :: start_reply where
  "live_greeting =
     \<lparr> replyText = ''Hello! I see a dinosaur!'', toolCall = None,
       initialUserMessage =
         \<lparr> role = User,
           content = Parts [TextPart ''What is in this image?'', ImageUrlPart ''data:image/svg+xml;base64,AAAA''] \<rparr> \<rparr>"

text \<open>An error as the remote client throws it.\<close>

definition connection_error :: js_error where
  "connection_error = JsError ''Error'' (Some ''Connection error.'')"

text \<open>A session in which the first reply was spoken, the user's answer could not be sent
  (the remote call failed), and the user clicked ``Try Again''.\<close>

definition after_failed_turn :: app where
  "after_failed_turn =
     tryAgain
       (fst (handleUserResponse ''hello'' (throws connection_error)
          (fst (handleAIBlueSpeechEnd
             (fst (startConversation False (settles_to ''data:image/svg+xml;base64,AAAA'')
                (settles_to live_greeting) live_app))))))"

text \<open>A history whose last message is an assistant turn.\<close>

definition assistant_last_history :: "ChatMessage list" where
  "assistant_last_history =
     [\<lparr> role = User, content = Text ''I like blue'' \<rparr>,
      \<lparr> role = Assistant, content = Text ''Oh wow! Red like a volcano! Is it hot?'' \<rparr>]"

text \<open>Histories that end with a user turn.\<close>

definition blue_history :: "ChatMessage list" where
  "blue_history = [\<lparr> role = User, content = Text ''I like blue'' \<rparr>]"

definition red_and_blue_history :: "ChatMessage list" where
  "red_and_blue_history = [\<lparr> role = User, content = Text ''Blue water and a RED fire'' \<rparr>]"

definition no_keyword_history :: "ChatMessage list" where
  "no_keyword_history = [\<lparr> role = User, content = Text ''He can jump'' \<rparr>]"

section \<open>Recognition: intent flag, restart and transcript\<close>

lemma listening_listener_eq:
  "listening_listener =
     \<lparr> isListening = True, transcript = [], shouldListen = True, hasRecognition = True,
       recStarted = True, startCalls = 1, stopCalls = 0 \<rparr>"
  by (simp add: listening_listener_def startListening_def mounted_listener_def try_start_def
      recognition_start_def rec_deliver_def recognition_onstart_def)

text \<open>
  No recognizer event sets the intent flag, and \<^verbatim>\<open>start()\<close> is only called from the end
  handler when the flag is set: while the flag is off, events start nothing.
\<close>

lemma intent_off_deliver:
  "\<not> shouldListen s \<Longrightarrow>
     \<not> shouldListen (rec_deliver ev s) \<and> startCalls (rec_deliver ev s) = startCalls s"
  by (cases ev)
     (auto simp: rec_deliver_def recognition_onstart_def recognition_onresult_def
        recognition_onend_def recognition_onerror_def Let_def split: list.splits)

lemma intent_off_run:
  "\<not> shouldListen s \<Longrightarrow>
     \<not> shouldListen (rec_run s evs) \<and> startCalls (rec_run s evs) = startCalls s"
proof (induction evs arbitrary: s)
  case Nil
  then show ?case by simp
next
  case (Cons ev evs)
  from intent_off_deliver [OF Cons.prems, of ev]
  have off: "\<not> shouldListen (rec_deliver ev s)"
    and same: "startCalls (rec_deliver ev s) = startCalls s"
    by simp_all
  from Cons.IH [OF off] same show ?case by simp
qed

text \<open>
  C9. Every call of \<open>startListening\<close> leaves the transcript empty and the intent flag
  set, and the recognizer's \<^verbatim>\<open>start()\<close> is attempted on the state in which both have
  already been written.
\<close>

theorem startListening_resets_transcript:
  "transcript (startListening s) = [] \<and> shouldListen (startListening s)
   \<and> startListening s =
       (if hasRecognition s then try_start (s\<lparr>transcript := [], shouldListen := True\<rparr>)
        else s\<lparr>transcript := [], shouldListen := True\<rparr>)"
  by (simp add: startListening_def try_start_def recognition_start_def Let_def)

text \<open>
  C8. After a recognition error \<^verbatim>\<open>not-allowed\<close> or \<^verbatim>\<open>service-not-allowed\<close> the intent
  flag is off, \<open>isListening\<close> is false, and whatever events the recognizer delivers
  afterwards, \<^verbatim>\<open>start()\<close> is not called again. After any other error \<open>isListening\<close> is
  false and the intent flag is what it was.
\<close>

theorem permission_error_clears_intent:
  "(err = ''not-allowed'' \<or> err = ''service-not-allowed'' \<longrightarrow>
      \<not> shouldListen (recognition_onerror err s)
      \<and> \<not> isListening (recognition_onerror err s)
      \<and> startCalls (rec_run (recognition_onerror err s) evs) = startCalls s)
   \<and> (err \<noteq> ''not-allowed'' \<and> err \<noteq> ''service-not-allowed'' \<longrightarrow>
      \<not> isListening (recognition_onerror err s)
      \<and> shouldListen (recognition_onerror err s) = shouldListen s)"
proof (intro conjI impI)
  assume perm: "err = ''not-allowed'' \<or> err = ''service-not-allowed''"
  then show off: "\<not> shouldListen (recognition_onerror err s)"
    by (auto simp: recognition_onerror_def)
  show "\<not> isListening (recognition_onerror err s)"
    by (simp add: recognition_onerror_def)
  have "startCalls (recognition_onerror err s) = startCalls s"
    by (simp add: recognition_onerror_def)
  with intent_off_run [OF off, of evs]
  show "startCalls (rec_run (recognition_onerror err s) evs) = startCalls s"
    by simp
next
  assume "err \<noteq> ''not-allowed'' \<and> err \<noteq> ''service-not-allowed''"
  then show "shouldListen (recognition_onerror err s) = shouldListen s"
    by (simp add: recognition_onerror_def)
  show "\<not> isListening (recognition_onerror err s)"
    by (simp add: recognition_onerror_def)
qed

text \<open>
  The theorem at a listening adapter: a permission error followed by two end events, and
  a network error.
\<close>

theorem permission_error_clears_intent_witness:
  "\<not> shouldListen (recognition_onerror ''not-allowed'' listening_listener)
   \<and> \<not> isListening (recognition_onerror ''not-allowed'' listening_listener)
   \<and> startCalls (rec_run (recognition_onerror ''not-allowed'' listening_listener) [EvEnd, EvEnd]) = 1
   \<and> \<not> isListening (recognition_onerror ''network'' listening_listener)
   \<and> shouldListen (recognition_onerror ''network'' listening_listener)"
  using permission_error_clears_intent [of "''not-allowed''" listening_listener "[EvEnd, EvEnd]"]
    permission_error_clears_intent [of "''network''" listening_listener "[]"]
  by (simp add: listening_listener_eq)

text \<open>
  C7, as stated, fails: \<open>isListening\<close> is false right after \<open>startListening\<close> (it is set
  by the start event), and false again after the recognizer ended on its own, although
  the intent flag is set and \<open>stopListening\<close> was never called.
\<close>

theorem onend_while_intended_counterexample:
  "\<not> isListening (startListening mounted_listener)
   \<and> \<not> isListening (rec_run (startListening mounted_listener) [EvStart, EvEnd])
   \<and> shouldListen (rec_run (startListening mounted_listener) [EvStart, EvEnd])"
  by (simp add: startListening_def mounted_listener_def try_start_def
      recognition_start_def rec_deliver_def recognition_onstart_def recognition_onend_def)

text \<open>
  C7, amended. When the recognizer ends on its own while the intent flag is set, the
  end handler reports \<open>isListening\<close> false and calls \<^verbatim>\<open>start()\<close> at once, which the
  stopped recognizer accepts; the intent flag stays set, and \<open>isListening\<close> is true
  again once the start event arrives. After \<open>stopListening\<close> no event restarts the
  recognizer.
\<close>

theorem onend_restarts_while_intended:
  assumes "hasRecognition s" and "shouldListen s"
  shows "recStarted (rec_deliver EvEnd s)
         \<and> startCalls (rec_deliver EvEnd s) = Suc (startCalls s)
         \<and> shouldListen (rec_deliver EvEnd s)
         \<and> \<not> isListening (rec_deliver EvEnd s)
         \<and> isListening (rec_deliver EvStart (rec_deliver EvEnd s))
         \<and> startCalls (rec_run (stopListening s) (EvEnd # evs)) = startCalls s"
proof -
  have e: "rec_deliver EvEnd s =
           s\<lparr>recStarted := True, isListening := False, startCalls := Suc (startCalls s)\<rparr>"
    using assms
    by (simp add: rec_deliver_def recognition_onend_def try_start_def recognition_start_def)
  have off: "\<not> shouldListen (stopListening s)"
    by (simp add: stopListening_def recognition_stop_def Let_def)
  have "startCalls (stopListening s) = startCalls s"
    by (simp add: stopListening_def recognition_stop_def Let_def)
  with intent_off_run [OF off, of "EvEnd # evs"]
  have "startCalls (rec_run (stopListening s) (EvEnd # evs)) = startCalls s"
    by simp
  with e assms show ?thesis
    by (simp add: rec_deliver_def recognition_onstart_def)
qed

theorem onend_restarts_while_intended_witness:
  "hasRecognition listening_listener \<and> shouldListen listening_listener
   \<and> recStarted (rec_deliver EvEnd listening_listener)
   \<and> startCalls (rec_deliver EvEnd listening_listener) = 2
   \<and> \<not> isListening (rec_deliver EvEnd listening_listener)
   \<and> isListening (rec_deliver EvStart (rec_deliver EvEnd listening_listener))
   \<and> startCalls (rec_run (stopListening listening_listener) [EvEnd, EvEnd]) = 1"
proof -
  have h1: "hasRecognition listening_listener" and h2: "shouldListen listening_listener"
    by (simp_all add: listening_listener_eq)
  from onend_restarts_while_intended [OF h1 h2, of "[EvEnd]"] h1 h2 show ?thesis
    by (simp add: listening_listener_eq)
qed

text \<open>
  C10, as stated, fails: a second result event does not extend the transcript, it
  overwrites it.
\<close>

theorem onresult_accumulates_counterexample:
  "transcript (rec_run listening_listener [EvResult [[''hello'']]]) = ''hello''
   \<and> transcript (rec_run listening_listener [EvResult [[''hello'']], EvResult [[''world'']]])
       = ''world''"
  by (simp add: listening_listener_eq rec_deliver_def recognition_onresult_def)

text \<open>
  C10, amended. Each recognition result event sets the transcript to the transcript of
  the first alternative of the event's last result, whatever the transcript held before.
\<close>

theorem onresult_replaces_transcript:
  "recognition_onresult (results @ [text # alternatives]) s = Inr (s\<lparr>transcript := text\<rparr>)
   \<and> transcript (rec_deliver (EvResult (results @ [text # alternatives]))
                   (s\<lparr>hasRecognition := True\<rparr>)) = text"
  by (cases results) (simp_all add: recognition_onresult_def rec_deliver_def)

section \<open>Synthesis: the safety timer and the completion callback\<close>

lemma length_split_space: "length (split_space s) = Suc (count_list s (CHR '' ''))"
  by (induction s) (auto split: list.splits)

text \<open>
  C2, as stated, fails: for a text of ten words the delay of the safety timer is 7000 ms,
  not the sum 2000 + 10 * 500 + 2000 = 9000 ms.
\<close>

theorem safety_timeout_sum_counterexample:
  "length (split_space ten_words) = 10
   \<and> safetyDelay ten_words = 7000
   \<and> safetyDelay ten_words \<noteq> 2000 + 10 * 500 + 2000"
  by (simp add: ten_words_def safetyDelay_def contentDuration_def)

text \<open>
  C2, amended. The delay of the safety timer is the larger of 2000 ms and 500 ms per
  word, plus 2000 ms, a word being a piece of the text between single spaces (one more
  than the number of spaces). It never exceeds 2000 + 500 per word + 2000; for ten words
  it is 7000 ms, which is within 9000 ms. For a non-empty text \<open>speak\<close> sets the timer
  with that delay.
\<close>

theorem safety_timeout_formula:
  "safetyDelay text = max 2000 (500 * Suc (count_list text (CHR '' ''))) + 2000
   \<and> safetyDelay text \<le> 2000 + 500 * length (split_space text) + 2000
   \<and> (length (split_space text) = 10 \<longrightarrow> safetyDelay text = 7000 \<and> safetyDelay text \<le> 9000)
   \<and> (text \<noteq> [] \<longrightarrow> timerPending (speak text onEnd s)
                      \<and> timerDelay (speak text onEnd s) = safetyDelay text)"
  by (simp add: safetyDelay_def contentDuration_def length_split_space speak_def)

theorem safety_timeout_formula_witness:
  "length (split_space ten_words) = 10 \<and> ten_words \<noteq> []
   \<and> safetyDelay ten_words = 7000
   \<and> timerPending (speak ten_words True idle_speaker)
   \<and> timerDelay (speak ten_words True idle_speaker) = 7000"
proof -
  have h: "length (split_space ten_words) = 10" and n: "ten_words \<noteq> []"
    by (simp_all add: ten_words_def)
  from safety_timeout_formula [of ten_words True idle_speaker] h n show ?thesis
    by simp
qed

lemma synth_run_append: "synth_run s (xs @ ys) = synth_run (synth_run s xs) ys"
  by (induction xs arbitrary: s) simp_all

lemma synth_run_starts:
  "utterance s \<Longrightarrow>
     synth_run s (replicate n UtteranceStart) =
       (if n = 0 then s else s\<lparr>isSpeaking := True\<rparr>)"
proof (induction n arbitrary: s)
  case 0
  then show ?case by simp
next
  case (Suc n)
  have u: "utterance (s\<lparr>isSpeaking := True\<rparr>)" using Suc.prems by simp
  show ?case
    using Suc.prems Suc.IH [OF u]
    by (simp add: synth_deliver_def utterance_onstart_def)
qed

lemma no_utterance_no_call:
  "\<not> utterance s \<Longrightarrow> \<not> timerPending s \<Longrightarrow> synth_run s evs = s"
proof (induction evs)
  case Nil
  then show ?case by simp
next
  case (Cons ev evs)
  then have "synth_deliver ev s = s"
    by (cases ev) (simp_all add: synth_deliver_def)
  with Cons show ?case by simp
qed

text \<open>
  The paths of \<open>speak\<close> that do what is intended. With an empty text \<open>speak\<close>
  returns at once, before any timer or handler exists, and the callback is never
  invoked. With a non-empty text, when the engine reports the end of the utterance or an
  error, the callback has been invoked once, and the timer is cleared, so its delay
  elapsing later adds nothing.
\<close>

lemma speak_empty_text_never_calls:
  "onEndCalls (synth_run (speak [] True idle_speaker) evs) = 0"
proof -
  have "synth_run (speak [] True idle_speaker) evs = idle_speaker"
    by (rule trans [OF no_utterance_no_call]) (simp_all add: speak_def idle_speaker_def)
  then show ?thesis by (simp add: idle_speaker_def)
qed

lemma onEnd_once_on_engine_report:
  assumes "text \<noteq> []" and "ev = UtteranceEnd \<or> ev = UtteranceError"
  shows "onEndCalls (synth_run (speak text True idle_speaker)
                       (replicate n UtteranceStart @ [ev])) = 1
         \<and> onEndCalls (synth_run (speak text True idle_speaker)
                       (replicate n UtteranceStart @ [ev, TimerElapsed speaking])) = 1"
proof -
  let ?s = "speak text True idle_speaker"
  have u: "utterance ?s" using assms(1) by (simp add: speak_def)
  have st: "synth_run ?s (replicate n UtteranceStart @ rest) =
            synth_run (if n = 0 then ?s else ?s\<lparr>isSpeaking := True\<rparr>) rest" for rest
    by (simp only: synth_run_append synth_run_starts [OF u])
  show ?thesis
    unfolding st using assms
    by (auto simp: speak_def idle_speaker_def synth_deliver_def utterance_onend_def
        utterance_onerror_def safetyTimer_body_def call_onEnd_def)
qed

text \<open>
  The timer's path, for any non-empty text: if the engine never reports the end and
  does not report speaking when the timer fires, the callback is not invoked, then or
  later (the timer runs once); if the timer fires while the engine reports speaking and
  the engine then reports the end or an error of the utterance the timer cancelled, the
  callback is invoked twice, because the handlers stay attached.
\<close>

lemma timer_path_counts:
  assumes "text \<noteq> []" and "ev = UtteranceEnd \<or> ev = UtteranceError"
  shows "onEndCalls (synth_run (speak text True idle_speaker)
                       (TimerElapsed False # replicate n (TimerElapsed speaking))) = 0
         \<and> onEndCalls (synth_run (speak text True idle_speaker) [TimerElapsed True, ev]) = 2"
proof -
  have idle: "synth_run s (replicate n (TimerElapsed speaking)) = s" if "\<not> timerPending s" for s
    using that by (induction n) (simp_all add: synth_deliver_def)
  have "\<not> timerPending (synth_deliver (TimerElapsed False) (speak text True idle_speaker))"
    using assms(1) by (simp add: speak_def synth_deliver_def safetyTimer_body_def)
  from idle [OF this]
  have a: "onEndCalls (synth_run (speak text True idle_speaker)
                         (TimerElapsed False # replicate n (TimerElapsed speaking))) = 0"
    using assms(1)
    by (simp add: speak_def idle_speaker_def synth_deliver_def safetyTimer_body_def)
  have b: "onEndCalls (synth_run (speak text True idle_speaker) [TimerElapsed True, ev]) = 2"
    using assms
    by (auto simp: speak_def idle_speaker_def synth_deliver_def utterance_onend_def
        utterance_onerror_def safetyTimer_body_def call_onEnd_def)
  from a b show ?thesis by simp
qed

text \<open>
  C1. The claim is that the callback of \<open>speak\<close> is invoked exactly once, also when the
  engine never signals completion, and never twice. For the text ``Hello there'' the
  code invokes it zero times when the end event is dropped and the engine does not
  report speaking as the safety timer fires, also if the delay elapses again; and it
  invokes it twice when the timer fires while the engine reports speaking and the
  engine then reports the error (or the end) of the utterance the timer cancelled.
\<close>

theorem speak_onEnd_not_exactly_once:
  "onEndCalls (synth_run (speak ''Hello there'' True idle_speaker) [TimerElapsed False]) = 0
   \<and> onEndCalls (synth_run (speak ''Hello there'' True idle_speaker)
                   [TimerElapsed False, TimerElapsed True]) = 0
   \<and> onEndCalls (synth_run (speak ''Hello there'' True idle_speaker)
                   [UtteranceStart, TimerElapsed True, UtteranceError]) = 2
   \<and> onEndCalls (synth_run (speak ''Hello there'' True idle_speaker)
                   [UtteranceStart, TimerElapsed True, UtteranceEnd]) = 2"
  by (simp add: speak_def idle_speaker_def synth_deliver_def utterance_onstart_def
      utterance_onend_def utterance_onerror_def safetyTimer_body_def call_onEnd_def)

section \<open>The scripted client\<close>

lemma keyword_chain_first_match: "keyword_chain t = first_match t"
  by (simp add: keyword_chain_def first_match_def keyword_table_def row_matches_def
      default_reply_def)

lemma find_rev_last: "xs \<noteq> [] \<Longrightarrow> P (last xs) \<Longrightarrow> find P (rev xs) = Some (last xs)"
  by (induction xs rule: rev_induct) simp_all

lemma to_lower_i_like_blue: "toLowerCase ''I like blue'' = ''i like blue''"
  by code_simp

lemma chain_i_like_blue:
  "keyword_chain ''i like blue'' =
     \<lparr> replyText = ''Splash! Blue like the ocean. Can he swim?'', toolCall = Some ''#e0f7fa'' \<rparr>"
  by code_simp

lemma ocean_in_reply: "includes_str ''Splash! Blue like the ocean. Can he swim?'' ''ocean''"
  by code_simp

lemma no_keyword_default:
  "list_all (\<lambda>row. \<not> row_matches t row) keyword_table \<Longrightarrow> first_match t = default_reply"
  by (simp add: first_match_def keyword_table_def)

text \<open>
  C4, as stated, fails: the client does not look for the latest user turn. It reads the
  last message of the history whatever its role, so for a history whose latest user turn
  is ``I like blue'' and whose last message is an assistant turn it answers from the
  assistant's text.
\<close>

theorem latest_user_turn_counterexample:
  "latest_user_text assistant_last_history = Some ''I like blue''
   \<and> mockContinueConversation assistant_last_history =
       Inr \<lparr> replyText = ''Oh wow! Red like a volcano! Is it hot?'', toolCall = Some ''#ffe5e5'' \<rparr>"
  by code_simp

text \<open>
  C4, amended. For every non-empty history, \<open>mockContinueConversation\<close> returns the
  reply of the first row, in the table's fixed order, one of whose keywords occurs in the
  lower-cased text of the last message of the history (the empty text when its content
  is not a string), and the generic reply with no colour command when no row matches.
  When the history ends with a user turn, that message is the latest user turn. A text
  containing ``red'' gets the red row whatever else it contains, ``blue'' included; a
  last message ``I like blue'' yields the colour \<^verbatim>\<open>#e0f7fa\<close> and a reply containing
  ``ocean''.
\<close>

theorem mockContinueConversation_first_match:
  assumes "hist \<noteq> []"
  shows "mockContinueConversation hist = Inr (first_match (userText_of (last hist)))
    \<and> (role (last hist) = User \<longrightarrow>
         map_option toLowerCase (latest_user_text hist)
           = (case content (last hist) of Text t \<Rightarrow> Some (userText_of (last hist)) | Parts ps \<Rightarrow> None))
    \<and> (includes_str (userText_of (last hist)) ''red'' \<longrightarrow>
         mockContinueConversation hist =
           Inr \<lparr> replyText = ''Oh wow! Red like a volcano! Is it hot?'', toolCall = Some ''#ffe5e5'' \<rparr>)
    \<and> (list_all (\<lambda>row. \<not> row_matches (userText_of (last hist)) row) keyword_table \<longrightarrow>
         mockContinueConversation hist =
           Inr \<lparr> replyText = ''That sounds like so much fun! What else can he do?'', toolCall = None \<rparr>)
    \<and> (content (last hist) = Text ''I like blue'' \<longrightarrow>
         mockContinueConversation hist =
           Inr \<lparr> replyText = ''Splash! Blue like the ocean. Can he swim?'', toolCall = Some ''#e0f7fa'' \<rparr>
         \<and> includes_str ''Splash! Blue like the ocean. Can he swim?'' ''ocean'')"
proof -
  let ?t = "userText_of (last hist)"
  from assms have m: "mockContinueConversation hist = Inr (keyword_chain ?t)"
    by (cases hist) (simp_all add: mockContinueConversation_def)
  have a: "mockContinueConversation hist = Inr (first_match ?t)"
    using m by (simp add: keyword_chain_first_match)
  have b: "role (last hist) = User \<longrightarrow>
         map_option toLowerCase (latest_user_text hist)
           = (case content (last hist) of Text t \<Rightarrow> Some ?t | Parts ps \<Rightarrow> None)"
    using assms
    by (auto simp: latest_user_text_def find_rev_last userText_of_def split: content.splits)
  have c: "includes_str ?t ''red'' \<longrightarrow>
         mockContinueConversation hist =
           Inr \<lparr> replyText = ''Oh wow! Red like a volcano! Is it hot?'', toolCall = Some ''#ffe5e5'' \<rparr>"
    using m by (simp add: keyword_chain_def)
  have d: "list_all (\<lambda>row. \<not> row_matches ?t row) keyword_table \<longrightarrow>
         mockContinueConversation hist =
           Inr \<lparr> replyText = ''That sounds like so much fun! What else can he do?'', toolCall = None \<rparr>"
    using a no_keyword_default [of ?t] by (simp add: default_reply_def)
  have e: "content (last hist) = Text ''I like blue'' \<longrightarrow>
         mockContinueConversation hist =
           Inr \<lparr> replyText = ''Splash! Blue like the ocean. Can he swim?'', toolCall = Some ''#e0f7fa'' \<rparr>
         \<and> includes_str ''Splash! Blue like the ocean. Can he swim?'' ''ocean''"
    using m by (simp add: userText_of_def to_lower_i_like_blue chain_i_like_blue ocean_in_reply)
  from a b c d e show ?thesis by blast
qed

theorem mockContinueConversation_first_match_witness:
  "blue_history \<noteq> [] \<and> role (last blue_history) = User
   \<and> latest_user_text blue_history = Some ''I like blue''
   \<and> mockContinueConversation blue_history =
        Inr \<lparr> replyText = ''Splash! Blue like the ocean. Can he swim?'', toolCall = Some ''#e0f7fa'' \<rparr>
   \<and> includes_str ''Splash! Blue like the ocean. Can he swim?'' ''ocean''
   \<and> includes_str (userText_of (last red_and_blue_history)) ''red''
   \<and> includes_str (userText_of (last red_and_blue_history)) ''blue''
   \<and> mockContinueConversation red_and_blue_history =
        Inr \<lparr> replyText = ''Oh wow! Red like a volcano! Is it hot?'', toolCall = Some ''#ffe5e5'' \<rparr>
   \<and> list_all (\<lambda>row. \<not> row_matches (userText_of (last no_keyword_history)) row) keyword_table
   \<and> mockContinueConversation no_keyword_history =
        Inr \<lparr> replyText = ''That sounds like so much fun! What else can he do?'', toolCall = None \<rparr>"
proof -
  have b1: "blue_history \<noteq> []" and b2: "role (last blue_history) = User"
    and b3: "content (last blue_history) = Text ''I like blue''"
    and b4: "latest_user_text blue_history = Some ''I like blue''"
    by (simp_all add: blue_history_def latest_user_text_def)
  have r1: "red_and_blue_history \<noteq> []"
    by (simp add: red_and_blue_history_def)
  have r2: "includes_str (userText_of (last red_and_blue_history)) ''red''"
    by code_simp
  have r3: "includes_str (userText_of (last red_and_blue_history)) ''blue''"
    by code_simp
  have n1: "no_keyword_history \<noteq> []"
    by (simp add: no_keyword_history_def)
  have n2: "list_all (\<lambda>row. \<not> row_matches (userText_of (last no_keyword_history)) row) keyword_table"
    by code_simp
  from mockContinueConversation_first_match [OF b1] b3
  have B: "mockContinueConversation blue_history =
        Inr \<lparr> replyText = ''Splash! Blue like the ocean. Can he swim?'', toolCall = Some ''#e0f7fa'' \<rparr>
      \<and> includes_str ''Splash! Blue like the ocean. Can he swim?'' ''ocean''"
    by blast
  from mockContinueConversation_first_match [OF r1] r2
  have R: "mockContinueConversation red_and_blue_history =
        Inr \<lparr> replyText = ''Oh wow! Red like a volcano! Is it hot?'', toolCall = Some ''#ffe5e5'' \<rparr>"
    by blast
  from mockContinueConversation_first_match [OF n1] n2
  have N: "mockContinueConversation no_keyword_history =
        Inr \<lparr> replyText = ''That sounds like so much fun! What else can he do?'', toolCall = None \<rparr>"
    by blast
  from b1 b2 b4 B r2 r3 R n2 N show ?thesis by blast
qed

text \<open>
  C5, as stated, fails: on the empty history the code reads \<^verbatim>\<open>content\<close> of
  \<^verbatim>\<open>undefined\<close> and the promise rejects with a \<^verbatim>\<open>TypeError\<close>.
\<close>

theorem scripted_empty_history_counterexample:
  "mockContinueConversation [] = Inl typeError_content"
  by (simp add: mockContinueConversation_def)

text \<open>
  C5, amended. The scripted path never fails on a non-empty history: for every non-empty
  dialogue history given to \<open>mockContinueConversation\<close>, and for every call of
  \<open>mockAnalyzeImageAndStart\<close>, a reply is returned and no exception is raised.
\<close>

theorem scripted_path_returns:
  "(hist \<noteq> [] \<longrightarrow> (\<exists>r. mockContinueConversation hist = Inr r))
   \<and> (\<exists>r. mockAnalyzeImageAndStart = Inr r)"
  by (cases hist) (simp_all add: mockContinueConversation_def mockAnalyzeImageAndStart_def)

theorem scripted_path_returns_witness:
  "blue_history \<noteq> []
   \<and> (\<exists>r. mockContinueConversation blue_history = Inr r)
   \<and> (\<exists>r. mockAnalyzeImageAndStart = Inr r)"
proof -
  have h: "blue_history \<noteq> []" by (simp add: blue_history_def)
  from scripted_path_returns [of blue_history] h show ?thesis by blast
qed

text \<open>
  The controller only ever passes a history that ends with the new user turn, so in
  demo mode \<open>handleUserResponse\<close> never reaches the error state.
\<close>

lemma demo_turn_never_fails:
  "isDemoMode s \<Longrightarrow> appState (fst (handleUserResponse userText continueConv s)) = SPEAKING"
  by (simp add: handleUserResponse_def mockContinueConversation_def apply_toolCall_def Let_def
      split: list.splits option.splits)

section \<open>The controller\<close>

text \<open>
  C3, as stated, fails: when the thrown value's message is empty, the text stored is not
  that message but the fallback.
\<close>

theorem empty_message_counterexample:
  "message (JsError ''Error'' (Some [])) = Some []
   \<and> appState (fst (handleUserResponse ''hello'' (throws (JsError ''Error'' (Some []))) live_app)) = ERROR
   \<and> lastAIResponse (fst (handleUserResponse ''hello'' (throws (JsError ''Error'' (Some []))) live_app))
       = ''Unknown error occurred''"
  by (simp add: handleUserResponse_def live_app_def loadStoredKey_def initial_app_def throws_def
      catch_error_def message_or_def Let_def)

text \<open>
  C3, amended. In live mode, when the model client call throws (in \<open>startConversation\<close>,
  once the image has been fetched, or in \<open>handleUserResponse\<close>), the controller ends
  in the \<open>ERROR\<close> state and \<open>lastAIResponse\<close> is the thrown value's message when
  that is a non-empty string, and ``Unknown error occurred'' when the message is absent
  or empty.
\<close>

theorem live_call_throws_ends_in_ERROR:
  assumes "\<not> isDemoMode s" and "hasKey s" and "fetchImage (imageSrc s) = Inr fetched"
  shows "appState (fst (startConversation False fetchImage (throws e) s)) = ERROR
    \<and> lastAIResponse (fst (startConversation False fetchImage (throws e) s))
        = (case message e of
             None \<Rightarrow> ''Unknown error occurred''
           | Some m \<Rightarrow> if m = [] then ''Unknown error occurred'' else m)
    \<and> appState (fst (handleUserResponse userText (throws e) s)) = ERROR
    \<and> lastAIResponse (fst (handleUserResponse userText (throws e) s))
        = (case message e of
             None \<Rightarrow> ''Unknown error occurred''
           | Some m \<Rightarrow> if m = [] then ''Unknown error occurred'' else m)"
  using assms
  by (simp add: startConversation_def handleUserResponse_def throws_def catch_error_def
      message_or_def Let_def)

theorem live_call_throws_ends_in_ERROR_witness:
  "\<not> isDemoMode live_app \<and> hasKey live_app
   \<and> appState (fst (startConversation False (settles_to ''data:image/svg+xml;base64,AAAA'')
                      (throws connection_error) live_app)) = ERROR
   \<and> lastAIResponse (fst (startConversation False (settles_to ''data:image/svg+xml;base64,AAAA'')
                      (throws connection_error) live_app)) = ''Connection error.''
   \<and> appState (fst (handleUserResponse ''hello'' (throws connection_error) live_app)) = ERROR
   \<and> lastAIResponse (fst (handleUserResponse ''hello'' (throws connection_error) live_app))
       = ''Connection error.''"
proof -
  have h1: "\<not> isDemoMode live_app" and h2: "hasKey live_app"
    by (simp_all add: live_app_def loadStoredKey_def initial_app_def)
  have h3: "settles_to ''data:image/svg+xml;base64,AAAA'' (imageSrc live_app)
              = (Inr ''data:image/svg+xml;base64,AAAA'' :: js_error + string)"
    by (simp add: settles_to_def)
  from live_call_throws_ends_in_ERROR
         [where s = live_app and fetchImage = "settles_to ''data:image/svg+xml;base64,AAAA''"
            and e = connection_error and userText = "''hello''", OF h1 h2 h3] h1 h2
  show ?thesis by (simp add: connection_error_def)
qed

lemma after_failed_turn_eq:
  "after_failed_turn =
     \<lparr> apiKey = ''sk-test'', hasKey = True, imageSrc = ''/dino.svg'', appState = IDLE,
       history = [initialUserMessage live_greeting,
                  \<lparr> role = Assistant, content = Text ''Hello! I see a dinosaur!'' \<rparr>,
                  \<lparr> role = User, content = Text ''hello'' \<rparr>],
       lastAIResponse = ''Connection error.'', backgroundColor = ''#f0f9ff'',
       isDemoMode = False \<rparr>"
  by (simp add: after_failed_turn_def tryAgain_def handleUserResponse_def
      handleAIBlueSpeechEnd_def startConversation_def live_app_def loadStoredKey_def
      initial_app_def settles_to_def throws_def catch_error_def message_or_def
      apply_toolCall_def connection_error_def live_greeting_def Let_def)

text \<open>
  C6, as stated, fails: \<open>startConversation\<close> does not append to the history, it
  replaces it. After a failed turn and ``Try Again'' the history holds three turns; the
  next successful analysis leaves two.
\<close>

theorem restart_replaces_history_counterexample:
  "appState after_failed_turn = IDLE
   \<and> length (history after_failed_turn) = 3
   \<and> appState (fst (startConversation False (settles_to ''data:image/svg+xml;base64,AAAA'')
                      (settles_to live_greeting) after_failed_turn)) = SPEAKING
   \<and> length (history (fst (startConversation False (settles_to ''data:image/svg+xml;base64,AAAA'')
                      (settles_to live_greeting) after_failed_turn))) = 2"
  by (simp add: after_failed_turn_eq startConversation_def settles_to_def apply_toolCall_def
      live_greeting_def Let_def)

text \<open>
  C6, amended. When the analysis succeeds, the controller sets the history to exactly two
  turns, the user-image turn followed by the assistant-reply turn, whatever the history
  held before (an append of two turns when the history was empty), enters \<open>SPEAKING\<close>
  and speaks the reply. \<open>handleUserResponse\<close> keeps the turns already in the history
  unchanged as a prefix of the new history, appending the user turn and, on success, the
  assistant turn.
\<close>

theorem analyzing_success_sets_two_turns:
  assumes "hasKey s \<or> forceDemo"
    and "fetchImage (imageSrc s) = Inr fetched"
    and "result = (if forceDemo \<or> isDemoMode s
                   then \<lparr> replyText = ''Wow! That looks like a super happy dinosaur! Is he going on an adventure?'',
                          toolCall = Some ''#e3fded'',
                          initialUserMessage = \<lparr> role = User, content = Text ''Image Analysis Request'' \<rparr> \<rparr>
                   else live_result)"
  shows "history (fst (startConversation forceDemo fetchImage (settles_to live_result) s))
           = [initialUserMessage result, \<lparr> role = Assistant, content = Text (replyText result) \<rparr>]
    \<and> appState (fst (startConversation forceDemo fetchImage (settles_to live_result) s)) = SPEAKING
    \<and> snd (startConversation forceDemo fetchImage (settles_to live_result) s)
         = [CallSpeak (replyText result)]
    \<and> (history s = [] \<longrightarrow>
          history (fst (startConversation forceDemo fetchImage (settles_to live_result) s))
            = history s @ [initialUserMessage result,
                           \<lparr> role = Assistant, content = Text (replyText result) \<rparr>])
    \<and> (\<not> isDemoMode s \<longrightarrow>
          history (fst (handleUserResponse userText (settles_to next_reply) s))
            = history s @ [\<lparr> role = User, content = Text userText \<rparr>,
                           \<lparr> role = Assistant, content = Text (replyText next_reply) \<rparr>])
    \<and> prefix (history s) (history (fst (handleUserResponse userText continueConversation s)))"
proof -
  have p: "prefix (history s) (history (fst (handleUserResponse userText continueConversation s)))"
    by (simp add: handleUserResponse_def catch_error_def apply_toolCall_def Let_def
        split: sum.splits option.splits)
  have q: "\<not> isDemoMode s \<longrightarrow>
          history (fst (handleUserResponse userText (settles_to next_reply) s))
            = history s @ [\<lparr> role = User, content = Text userText \<rparr>,
                           \<lparr> role = Assistant, content = Text (replyText next_reply) \<rparr>]"
    by (simp add: handleUserResponse_def settles_to_def apply_toolCall_def Let_def
        split: option.splits)
  have r: "history (fst (startConversation forceDemo fetchImage (settles_to live_result) s))
           = [initialUserMessage result, \<lparr> role = Assistant, content = Text (replyText result) \<rparr>]
    \<and> appState (fst (startConversation forceDemo fetchImage (settles_to live_result) s)) = SPEAKING
    \<and> snd (startConversation forceDemo fetchImage (settles_to live_result) s)
         = [CallSpeak (replyText result)]"
    using assms
    by (auto simp: startConversation_def settles_to_def mockAnalyzeImageAndStart_def
        apply_toolCall_def Let_def split: option.splits)
  from p q r show ?thesis by simp
qed

theorem analyzing_success_sets_two_turns_witness:
  "hasKey live_app \<and> history live_app = [] \<and> \<not> isDemoMode live_app
   \<and> history (fst (startConversation False (settles_to ''data:image/svg+xml;base64,AAAA'')
                     (settles_to live_greeting) live_app))
       = [initialUserMessage live_greeting,
          \<lparr> role = Assistant, content = Text (replyText live_greeting) \<rparr>]
   \<and> appState (fst (startConversation False (settles_to ''data:image/svg+xml;base64,AAAA'')
                     (settles_to live_greeting) live_app)) = SPEAKING
   \<and> history (fst (handleUserResponse ''hello''
                     (settles_to \<lparr> replyText = ''Tell me more!'', toolCall = None \<rparr>) live_app))
       = [\<lparr> role = User, content = Text ''hello'' \<rparr>,
          \<lparr> role = Assistant, content = Text ''Tell me more!'' \<rparr>]"
proof -
  have h1: "hasKey live_app \<or> False" and h2: "history live_app = []"
    and h3: "\<not> isDemoMode live_app" and h4: "hasKey live_app"
    by (simp_all add: live_app_def loadStoredKey_def initial_app_def)
  have f: "settles_to ''data:image/svg+xml;base64,AAAA'' (imageSrc live_app)
              = (Inr ''data:image/svg+xml;base64,AAAA'' :: js_error + string)"
    by (simp add: settles_to_def)
  have r: "live_greeting = (if False \<or> isDemoMode live_app
                   then \<lparr> replyText = ''Wow! That looks like a super happy dinosaur! Is he going on an adventure?'',
                          toolCall = Some ''#e3fded'',
                          initialUserMessage = \<lparr> role = User, content = Text ''Image Analysis Request'' \<rparr> \<rparr>
                   else live_greeting)"
    using h3 by simp
  from analyzing_success_sets_two_turns
         [where s = live_app and forceDemo = False
            and fetchImage = "settles_to ''data:image/svg+xml;base64,AAAA''"
            and live_result = live_greeting and result = live_greeting
            and userText = "''hello''"
            and next_reply = "\<lparr> replyText = ''Tell me more!'', toolCall = None \<rparr>",
          OF h1 f r] h2 h3 h4
  show ?thesis by simp
qed

end
